theory Spec2Isabelle
  imports Complex_Main "HOL-Library.Sublist"
begin

section \<open>Pokemon-finder: price estimator, listing filter and arbitrage classifier\<close>

text \<open>
  A shallow embedding of the pricing pipeline of \<^verbatim>\<open>app.py\<close>: the helpers
  \<^verbatim>\<open>contains_disallowed\<close>, \<^verbatim>\<open>trimmed_mean\<close>, \<^verbatim>\<open>get_completed_prices\<close>,
  \<^verbatim>\<open>get_active_under\<close> and the two request handlers \<^verbatim>\<open>dashboard\<close> and
  \<^verbatim>\<open>api_search\<close> that classify active listings.

  Conventions of the model.
  \<^item> Python \<^verbatim>\<open>float\<close> values are exact rationals (\<^typ>\<open>rat\<close>): arithmetic does not round,
    and there is no infinity and no NaN. The model therefore says which prices are kept, which
    formula is applied and which branch is taken; the digits of a price estimate, of a
    threshold and of a rounded average are those of the program only up to the rounding of
    double-precision arithmetic, and at a tie of the second decimal they can differ by a
    hundredth. The properties below are about the shape of the results; the worked examples
    use values (sales at 100, discounts 0, 40 and 100) for which double-precision arithmetic
    is exact.
  \<^item> Python \<^verbatim>\<open>int\<close> is \<^typ>\<open>int\<close>; \<^verbatim>\<open>str\<close> is \<^typ>\<open>string\<close>, read as ASCII text.
  \<^item> Python \<^verbatim>\<open>None\<close> is \<^term>\<open>None\<close>; a raised exception is \<^term>\<open>Inl e\<close>.
  \<^item> The network is a function from requests to responses, and every handler returns the
    list of requests it sent next to its outcome.
\<close>

subsection \<open>Errors\<close>

datatype error =
    StatisticsError
  | TypeError
  | ValueError string
  | RequestError string
  | MissingAppId

subsection \<open>Python list slicing and \<^verbatim>\<open>statistics.median\<close>\<close>

text \<open>
  \<^verbatim>\<open>xs[lo:hi]\<close> on Python integers: a negative bound counts from the end, and both
  bounds are clamped to the list.
\<close>

definition slice_bound :: "int \<Rightarrow> int \<Rightarrow> int" where
  "slice_bound n i = (if i < 0 then max 0 (n + i) else min i n)"

definition py_slice :: "'a list \<Rightarrow> int \<Rightarrow> int \<Rightarrow> 'a list" where
  "py_slice xs lo hi =
     (let n = int (length xs); a = slice_bound n lo; b = slice_bound n hi
      in take (nat (b - a)) (drop (nat a) xs))"

text \<open>
  The standard library's median: it sorts its argument, raises \<^verbatim>\<open>StatisticsError\<close> on
  empty data, returns the middle element of an odd number of values and the average of
  the two middle elements of an even number.
\<close>

definition median :: "rat list \<Rightarrow> error + rat" where
  "median data0 =
     (let data = sort data0; n = length data
      in if n = 0 then Inl StatisticsError
         else if n mod 2 = 1 then Inr (data ! (n div 2))
         else (let i = n div 2 in Inr ((data ! (i - 1) + data ! i) / 2)))"

subsection \<open>The price estimator \<^verbatim>\<open>trimmed_mean\<close>\<close>

text \<open>
  \<^verbatim>\<open>trim = max(1, math.floor(n*0.15))\<close>. The product is taken in exact arithmetic; the
  double nearest to 0.15 is less than \<open>4 / 10^17\<close> (relative) below it, so the floating
  product rounds to the same floor for every length a list can have.
\<close>

definition trim_count :: "int \<Rightarrow> int" where
  "trim_count n = max 1 \<lfloor>(of_int n :: rat) * (15 / 100)\<rfloor>"

text \<open>
  \<^verbatim>\<open>core = prices_sorted[trim:n-trim] if (n-2*trim)>=3 else prices_sorted\<close>
\<close>

definition core_slice :: "rat list \<Rightarrow> int \<Rightarrow> int \<Rightarrow> rat list" where
  "core_slice prices_sorted n trim =
     (if n - 2 * trim \<ge> 3 then py_slice prices_sorted trim (n - trim) else prices_sorted)"

text \<open>
  \<^verbatim>\<open>return sum(core)/len(core) if core else statistics.median(prices_sorted)\<close>
\<close>

definition core_estimate :: "rat list \<Rightarrow> rat list \<Rightarrow> error + rat" where
  "core_estimate core prices_sorted =
     (if core \<noteq> [] then Inr (sum_list core / of_nat (length core))
      else median prices_sorted)"

definition some_result :: "error + rat \<Rightarrow> error + rat option" where
  "some_result r = (case r of Inl e \<Rightarrow> Inl e | Inr v \<Rightarrow> Inr (Some v))"

definition trimmed_mean :: "rat list \<Rightarrow> error + rat option" where
  "trimmed_mean prices =
     (if prices = [] then Inr None
      else
        (let prices_sorted = sort prices; n = int (length prices_sorted)
         in if n < 6 then some_result (median prices_sorted)
            else
              (let trim = trim_count n; core = core_slice prices_sorted n trim
               in some_result (core_estimate core prices_sorted))))"

subsection \<open>Strings: \<^verbatim>\<open>lower\<close>, \<^verbatim>\<open>strip\<close>, \<^verbatim>\<open>split\<close> and \<^verbatim>\<open>in\<close>\<close>

definition lower_char :: "char \<Rightarrow> char" where
  "lower_char c =
     (let k = (of_char c :: nat) in if 65 \<le> k \<and> k \<le> 90 then char_of (k + 32) else c)"

definition lower :: "string \<Rightarrow> string" where
  "lower s = map lower_char s"

text \<open>The ASCII characters that \<^verbatim>\<open>str.strip()\<close> removes: 9 to 13, 28 to 31, and the space.\<close>

definition is_space :: "char \<Rightarrow> bool" where
  "is_space c = (let k = (of_char c :: nat) in (9 \<le> k \<and> k \<le> 13) \<or> (28 \<le> k \<and> k \<le> 32))"

definition strip :: "string \<Rightarrow> string" where
  "strip s = rev (dropWhile is_space (rev (dropWhile is_space s)))"

text \<open>\<^verbatim>\<open>s.split(",")\<close>: one piece more than there are commas, empty pieces kept.\<close>

fun split_comma :: "string \<Rightarrow> string list" where
  "split_comma [] = [[]]"
| "split_comma (c # cs) =
     (if c = CHR '','' then [] # split_comma cs
      else (case split_comma cs of [] \<Rightarrow> [[c]] | w # ws \<Rightarrow> (c # w) # ws))"

text \<open>\<^verbatim>\<open>tm in t\<close> on strings: \<open>tm\<close> starts at some position of \<open>t\<close>.\<close>

fun py_in :: "string \<Rightarrow> string \<Rightarrow> bool" where
  "py_in tm [] = (tm = [])"
| "py_in tm (c # cs) = (prefix tm (c # cs) \<or> py_in tm cs)"

text \<open>
  \<^verbatim>\<open>[t.strip().lower() for t in exclude_terms.split(",") if t.strip()]\<close>, as both
  handlers build the list of disallowed terms.
\<close>

definition parse_exclude_terms :: "string \<Rightarrow> string list" where
  "parse_exclude_terms exclude_terms =
     [lower (strip t). t \<leftarrow> split_comma exclude_terms, strip t \<noteq> []]"

subsection \<open>The title check \<^verbatim>\<open>contains_disallowed\<close>\<close>

definition contains_disallowed :: "string option \<Rightarrow> string list \<Rightarrow> bool" where
  "contains_disallowed title disallowed =
     (let t = lower (case title of None \<Rightarrow> [] | Some s \<Rightarrow> s)
      in list_ex (\<lambda>tm. py_in tm t) disallowed)"

subsection \<open>Listings, requests and the search transport\<close>

text \<open>
  One entry of the search result, with the fields the loops read. \<open>price_value\<close> is the
  value of \<^verbatim>\<open>float(price_obj.get("__value__", "0"))\<close>, \<^term>\<open>None\<close> when \<^verbatim>\<open>float\<close> raises;
  \<open>currencyId\<close> is \<^verbatim>\<open>price_obj.get("@currencyId")\<close>.
\<close>

record raw_item =
  title :: "string option"
  sellingState :: string
  currencyId :: "string option"
  price_value :: "rat option"
  viewItemURL :: string
  itemId :: string

text \<open>An entry of \<^verbatim>\<open>results\<close> in \<^verbatim>\<open>get_active_under\<close>: the keys id, title, price, url.\<close>

record listing =
  listing_id :: string
  listing_title :: "string option"
  listing_price :: rat
  listing_url :: string

text \<open>
  The two requests, with the parameters that vary: application id, keywords, global id,
  category id, entries per page, and for the active search the maximum price and its
  currency.
\<close>

datatype request =
    FindCompletedItems string string string string int
  | FindItemsAdvanced string string string string rat string int

text \<open>
  \<^verbatim>\<open>requests.get\<close>, \<^verbatim>\<open>raise_for_status\<close>, \<^verbatim>\<open>r.json()\<close> and the walk down to the item
  list: an exception or the items.
\<close>

type_synonym transport = "request \<Rightarrow> error + raw_item list"

subsection \<open>The completed-sales pass \<^verbatim>\<open>get_completed_prices\<close>\<close>

fun completed_loop :: "string \<Rightarrow> string list \<Rightarrow> raw_item list \<Rightarrow> rat list" where
  "completed_loop currency disallowed [] = []"
| "completed_loop currency disallowed (it # items) =
     (if contains_disallowed (title it) disallowed then completed_loop currency disallowed items
      else if sellingState it \<noteq> ''EndedWithSales'' then completed_loop currency disallowed items
      else if currencyId it \<noteq> Some currency then completed_loop currency disallowed items
      else (case price_value it of
              None \<Rightarrow> completed_loop currency disallowed items
            | Some price \<Rightarrow>
                if price > 0 then price # completed_loop currency disallowed items
                else completed_loop currency disallowed items))"

definition get_completed_prices ::
  "transport \<Rightarrow> string \<Rightarrow> string \<Rightarrow> string \<Rightarrow> string \<Rightarrow> string \<Rightarrow> int \<Rightarrow> string list
     \<Rightarrow> request list \<Rightarrow> (error + rat list) \<times> request list" where
  "get_completed_prices http app_id keywords global_id category_id currency sold_fetch
       disallowed sent =
     (let req = FindCompletedItems app_id keywords global_id category_id sold_fetch
      in case http req of
           Inl e \<Rightarrow> (Inl e, sent @ [req])
         | Inr items \<Rightarrow> (Inr (completed_loop currency disallowed items), sent @ [req]))"

subsection \<open>The active-listings pass \<^verbatim>\<open>get_active_under\<close>\<close>

fun active_loop :: "string \<Rightarrow> string list \<Rightarrow> raw_item list \<Rightarrow> listing list" where
  "active_loop currency disallowed [] = []"
| "active_loop currency disallowed (it # items) =
     (if contains_disallowed (title it) disallowed then active_loop currency disallowed items
      else if currencyId it \<noteq> Some currency then active_loop currency disallowed items
      else (case price_value it of
              None \<Rightarrow> active_loop currency disallowed items
            | Some price \<Rightarrow>
                if price \<le> 0 then active_loop currency disallowed items
                else \<lparr>listing_id = itemId it, listing_title = title it,
                       listing_price = price, listing_url = viewItemURL it\<rparr>
                     # active_loop currency disallowed items))"

definition get_active_under ::
  "transport \<Rightarrow> string \<Rightarrow> string \<Rightarrow> string \<Rightarrow> string \<Rightarrow> string \<Rightarrow> int \<Rightarrow> rat \<Rightarrow> string list
     \<Rightarrow> request list \<Rightarrow> (error + listing list) \<times> request list" where
  "get_active_under http app_id keywords global_id category_id currency active_fetch
       max_price disallowed sent =
     (let req = FindItemsAdvanced app_id keywords global_id category_id max_price currency
                  active_fetch
      in case http req of
           Inl e \<Rightarrow> (Inl e, sent @ [req])
         | Inr items \<Rightarrow> (Inr (active_loop currency disallowed items), sent @ [req]))"

subsection \<open>The classifier: the handlers \<^verbatim>\<open>dashboard\<close> and \<^verbatim>\<open>api_search\<close>\<close>

text \<open>
  The submitted fields, after \<^verbatim>\<open>int(...)\<close> and \<^verbatim>\<open>float(...)\<close>: the POST form of
  \<^verbatim>\<open>dashboard\<close> and the JSON body of \<^verbatim>\<open>api_search\<close> have the same keys. Session login
  and the API-key lookup happen before the code modelled here.
\<close>

record form =
  form_keywords :: string
  form_global_id :: string
  form_category_id :: string
  form_currency :: string
  form_sold_fetch :: int
  form_min_sold_count :: int
  form_discount_percent :: rat
  form_active_fetch :: int
  form_exclude_terms :: string

text \<open>
  The \<^verbatim>\<open>results\<close> dictionary (keys note, sold_count, avg_price, threshold, hits); a key
  that a branch does not set is \<^term>\<open>None\<close>.
\<close>

record arbitrage_result =
  res_note :: "string option"
  res_sold_count :: int
  res_avg_price :: "rat option"
  res_threshold :: "rat option"
  res_hits :: "listing list"

text \<open>\<^verbatim>\<open>str(n)\<close> of a length, inside the f-strings of the notes.\<close>

fun str_nat :: "nat \<Rightarrow> string" where
  "str_nat n =
     (if n < 10 then [char_of (48 + n)]
      else str_nat (n div 10) @ [char_of (48 + n mod 10)])"

declare str_nat.simps [simp del]

text \<open>
  \<^verbatim>\<open>round(x, 2)\<close>: the nearest multiple of one hundredth, a tie going to the even
  multiple. The program rounds a double, which is seldom exactly at a tie; here the
  argument is the exact product.
\<close>

definition py_round2 :: "rat \<Rightarrow> rat" where
  "py_round2 x =
     (let y = x * 100; f = \<lfloor>y\<rfloor>; r = y - of_int f
      in (if r < 1 / 2 then of_int f
          else if r > 1 / 2 then of_int (f + 1)
          else if even f then of_int f
          else of_int (f + 1)) / 100)"

text \<open>\<^verbatim>\<open>not avg_price\<close>: true of \<^verbatim>\<open>None\<close> and of zero.\<close>

definition falsy :: "rat option \<Rightarrow> bool" where
  "falsy avg_price = (case avg_price of None \<Rightarrow> True | Some v \<Rightarrow> v = 0)"

text \<open>
  The POST branch of \<^verbatim>\<open>dashboard\<close>. An exception raised inside the \<^verbatim>\<open>try\<close> is flashed
  and the page is rendered without results: the outcome \<^term>\<open>Inl e\<close>. Multiplying an
  absent average would raise \<^verbatim>\<open>TypeError\<close>; the test of \<^verbatim>\<open>not avg_price\<close> before it
  keeps that from happening.
\<close>

definition dashboard ::
  "string option \<Rightarrow> transport \<Rightarrow> form \<Rightarrow> (error + arbitrage_result) \<times> request list" where
  "dashboard EBAY_APP_ID http fm =
     (case EBAY_APP_ID of
        None \<Rightarrow> (Inl MissingAppId, [])
      | Some app_id \<Rightarrow>
          if app_id = [] then (Inl MissingAppId, [])
          else
            (let keywords = strip (form_keywords fm);
                 global_id = strip (form_global_id fm);
                 category_id = strip (form_category_id fm);
                 currency = strip (form_currency fm);
                 sold_fetch = form_sold_fetch fm;
                 min_sold = form_min_sold_count fm;
                 discount_percent = form_discount_percent fm;
                 active_fetch = form_active_fetch fm;
                 disallowed = parse_exclude_terms (form_exclude_terms fm)
             in if discount_percent \<le> 0 \<or> discount_percent \<ge> 100
                then (Inl (ValueError ''Discount % must be between 1 and 99.''), [])
                else
                  (case get_completed_prices http app_id keywords global_id category_id
                          currency sold_fetch disallowed [] of
                     (Inl e, sent) \<Rightarrow> (Inl e, sent)
                   | (Inr sold_prices, sent) \<Rightarrow>
                       (case (if sold_prices \<noteq> [] then trimmed_mean sold_prices else Inr None) of
                          Inl e \<Rightarrow> (Inl e, sent)
                        | Inr avg_price \<Rightarrow>
                            if falsy avg_price \<or> int (length sold_prices) < min_sold
                            then (Inr \<lparr>res_note = Some (''Not enough sold data (got ''
                                           @ str_nat (length sold_prices) @ '').''),
                                       res_sold_count = int (length sold_prices),
                                       res_avg_price = avg_price,
                                       res_threshold = None,
                                       res_hits = []\<rparr>, sent)
                            else
                              (case avg_price of
                                 None \<Rightarrow> (Inl TypeError, sent)
                               | Some avg \<Rightarrow>
                                   (let threshold =
                                          py_round2 (avg * (1 - discount_percent / 100))
                                    in case get_active_under http app_id keywords global_id
                                              category_id currency active_fetch threshold
                                              disallowed sent of
                                         (Inl e, sent') \<Rightarrow> (Inl e, sent')
                                       | (Inr hits, sent') \<Rightarrow>
                                           (Inr \<lparr>res_note = None,
                                                  res_sold_count = int (length sold_prices),
                                                  res_avg_price = Some (py_round2 avg),
                                                  res_threshold = Some threshold,
                                                  res_hits = hits\<rparr>, sent')))))))"

text \<open>
  \<^verbatim>\<open>api_search\<close>, from the check of \<^verbatim>\<open>EBAY_APP_ID\<close> on. The fields are used as they
  come (no \<^verbatim>\<open>strip\<close>), and there is no check of \<^verbatim>\<open>discount_percent\<close>. An exception
  inside the \<^verbatim>\<open>try\<close> becomes the JSON error answer: the outcome \<^term>\<open>Inl e\<close>.
\<close>

definition api_search ::
  "string option \<Rightarrow> transport \<Rightarrow> form \<Rightarrow> (error + arbitrage_result) \<times> request list" where
  "api_search EBAY_APP_ID http fm =
     (let keywords = form_keywords fm;
          global_id = form_global_id fm;
          category_id = form_category_id fm;
          currency = form_currency fm;
          sold_fetch = form_sold_fetch fm;
          min_sold = form_min_sold_count fm;
          discount_percent = form_discount_percent fm;
          active_fetch = form_active_fetch fm;
          disallowed = parse_exclude_terms (form_exclude_terms fm)
      in case EBAY_APP_ID of
           None \<Rightarrow> (Inl MissingAppId, [])
         | Some app_id \<Rightarrow>
             if app_id = [] then (Inl MissingAppId, [])
             else
               (case get_completed_prices http app_id keywords global_id category_id
                       currency sold_fetch disallowed [] of
                  (Inl e, sent) \<Rightarrow> (Inl e, sent)
                | (Inr sold_prices, sent) \<Rightarrow>
                    (case (if sold_prices \<noteq> [] then trimmed_mean sold_prices else Inr None) of
                       Inl e \<Rightarrow> (Inl e, sent)
                     | Inr avg_price \<Rightarrow>
                         if falsy avg_price \<or> int (length sold_prices) < min_sold
                         then (Inr \<lparr>res_note = Some (''Not enough sold data (''
                                        @ str_nat (length sold_prices) @ '').''),
                                    res_sold_count = int (length sold_prices),
                                    res_avg_price = avg_price,
                                    res_threshold = None,
                                    res_hits = []\<rparr>, sent)
                         else
                           (case avg_price of
                              None \<Rightarrow> (Inl TypeError, sent)
                            | Some avg \<Rightarrow>
                                (let threshold =
                                       py_round2 (avg * (1 - discount_percent / 100))
                                 in case get_active_under http app_id keywords global_id
                                           category_id currency active_fetch threshold
                                           disallowed sent of
                                      (Inl e, sent') \<Rightarrow> (Inl e, sent')
                                    | (Inr hits, sent') \<Rightarrow>
                                        (Inr \<lparr>res_note = None,
                                               res_sold_count = int (length sold_prices),
                                               res_avg_price = Some (py_round2 avg),
                                               res_threshold = Some threshold,
                                               res_hits = hits\<rparr>, sent'))))))"

subsection \<open>The lines the two handlers share\<close>

text \<open>
  From \<^verbatim>\<open>avg_price = trimmed_mean(sold_prices) if sold_prices else None\<close> to the result,
  the two handlers run the same lines and differ in the wording of the note only. The
  function below is those lines with the beginning of the note as a parameter. It is not a
  function of the program: the lemmas \<open>dashboard_classify\<close> and \<open>api_search_classify\<close> show
  that each handler is this function after its own first steps, and the properties of the
  handlers are then derived once.
\<close>

definition classify_sold ::
  "string \<Rightarrow> transport \<Rightarrow> string \<Rightarrow> string \<Rightarrow> string \<Rightarrow> string \<Rightarrow> string \<Rightarrow> int \<Rightarrow> rat \<Rightarrow> int
     \<Rightarrow> string list \<Rightarrow> rat list \<Rightarrow> request list
     \<Rightarrow> (error + arbitrage_result) \<times> request list" where
  "classify_sold note_start http app_id keywords global_id category_id currency min_sold
       discount_percent active_fetch disallowed sold_prices sent =
     (case (if sold_prices \<noteq> [] then trimmed_mean sold_prices else Inr None) of
        Inl e \<Rightarrow> (Inl e, sent)
      | Inr avg_price \<Rightarrow>
          if falsy avg_price \<or> int (length sold_prices) < min_sold
          then (Inr \<lparr>res_note = Some (note_start @ str_nat (length sold_prices) @ '').''),
                     res_sold_count = int (length sold_prices),
                     res_avg_price = avg_price,
                     res_threshold = None,
                     res_hits = []\<rparr>, sent)
          else
            (case avg_price of
               None \<Rightarrow> (Inl TypeError, sent)
             | Some avg \<Rightarrow>
                 (let threshold = py_round2 (avg * (1 - discount_percent / 100))
                  in case get_active_under http app_id keywords global_id category_id
                            currency active_fetch threshold disallowed sent of
                       (Inl e, sent') \<Rightarrow> (Inl e, sent')
                     | (Inr hits, sent') \<Rightarrow>
                         (Inr \<lparr>res_note = None,
                                res_sold_count = int (length sold_prices),
                                res_avg_price = Some (py_round2 avg),
                                res_threshold = Some threshold,
                                res_hits = hits\<rparr>, sent'))))"

subsection \<open>A small marketplace for worked examples\<close>

text \<open>
  A search transport that answers the completed-sales request with \<open>k\<close> sales at 100 GBP
  and the active request with those of three listings that cost no more than the maximum
  price: one plain, one whose title names a grading company, one priced in another
  currency. The form carries the defaults of
  \<^verbatim>\<open>dashboard\<close>, with the discount left open.
\<close>

definition example_item :: "string \<Rightarrow> string \<Rightarrow> rat \<Rightarrow> raw_item" where
  "example_item t cur p =
     \<lparr>title = Some t, sellingState = ''EndedWithSales'', currencyId = Some cur,
      price_value = Some p, viewItemURL = ''https://www.ebay.co.uk/itm/1'', itemId = ''1''\<rparr>"

definition example_market :: "nat \<Rightarrow> transport" where
  "example_market k req =
     (case req of
        FindCompletedItems _ _ _ _ _ \<Rightarrow> Inr (replicate k (example_item ''Charizard holo'' ''GBP'' 100))
      | FindItemsAdvanced _ _ _ _ max_price _ _ \<Rightarrow>
          Inr (filter (\<lambda>it. case price_value it of None \<Rightarrow> False | Some p \<Rightarrow> p \<le> max_price)
                 [example_item ''Charizard holo'' ''GBP'' 45,
                  example_item ''PSA9 Charizard'' ''GBP'' 40,
                  example_item ''Charizard holo'' ''USD'' 30]))"

definition example_form :: "rat \<Rightarrow> form" where
  "example_form d =
     \<lparr>form_keywords = ''vintage pokemon cards holo'', form_global_id = ''EBAY-GB'',
      form_category_id = ''183454'', form_currency = ''GBP'', form_sold_fetch = 50,
      form_min_sold_count = 12, form_discount_percent = d, form_active_fetch = 50,
      form_exclude_terms = ''psa,bgs,cgc,graded,proxy,reprint,replica,lot,bundle,job lot''\<rparr>"

section \<open>Properties\<close>

subsection \<open>Auxiliary facts about the estimator\<close>

lemma trim_count_div: "trim_count n = max 1 (3 * n div 20)"
proof -
  have "(of_int n :: rat) * (15 / 100) = of_int (3 * n) / of_int 20" by simp
  then have "\<lfloor>(of_int n :: rat) * (15 / 100)\<rfloor> = 3 * n div 20"
    by (simp only: floor_divide_of_int_eq)
  then show ?thesis by (simp add: trim_count_def)
qed

lemma trim_count_pos: "1 \<le> trim_count n"
  by (simp add: trim_count_def)

lemma core_size_ge3: "6 \<le> n \<Longrightarrow> 3 \<le> n - 2 * trim_count n"
  unfolding trim_count_div by (auto simp add: max_def)

lemma trim_count_le: "6 \<le> n \<Longrightarrow> trim_count n \<le> n - trim_count n"
  using core_size_ge3 [of n] by linarith

lemma py_slice_inner:
  "0 \<le> lo \<Longrightarrow> lo \<le> hi \<Longrightarrow> hi \<le> int (length xs)
    \<Longrightarrow> py_slice xs lo hi = take (nat (hi - lo)) (drop (nat lo) xs)"
  by (simp add: py_slice_def slice_bound_def Let_def min_def)

lemma sort_Nil_iff: "sort xs = [] \<longleftrightarrow> xs = []"
  by (metis length_sort length_0_conv)

lemma median_sort: "median (sort xs) = median xs"
  by (simp add: median_def sorted_sort_id)

lemma median_value:
  "xs \<noteq> [] \<Longrightarrow> median xs =
     Inr (if odd (length xs) then sort xs ! (length xs div 2)
          else (sort xs ! (length xs div 2 - 1) + sort xs ! (length xs div 2)) / 2)"
  by (auto simp add: median_def Let_def odd_iff_mod_2_eq_one sort_Nil_iff)

lemma trimmed_mean_small:
  "prices \<noteq> [] \<Longrightarrow> length prices < 6 \<Longrightarrow>
   trimmed_mean prices =
     Inr (Some (if odd (length prices) then sort prices ! (length prices div 2)
          else (sort prices ! (length prices div 2 - 1) + sort prices ! (length prices div 2)) / 2))"
  by (simp add: trimmed_mean_def Let_def median_sort median_value some_result_def)

lemma core_slice_large:
  assumes "6 \<le> length prices"
  shows "core_slice (sort prices) (int (length prices)) (trim_count (int (length prices)))
         = take (nat (int (length prices) - 2 * trim_count (int (length prices))))
             (drop (nat (trim_count (int (length prices)))) (sort prices))"
proof -
  let ?n = "int (length prices)"
  let ?t = "trim_count ?n"
  have n6: "6 \<le> ?n" using assms by simp
  have c3: "3 \<le> ?n - 2 * ?t" by (rule core_size_ge3 [OF n6])
  have t1: "1 \<le> ?t" by (rule trim_count_pos)
  have "py_slice (sort prices) ?t (?n - ?t) = take (nat ((?n - ?t) - ?t)) (drop (nat ?t) (sort prices))"
    by (rule py_slice_inner) (use c3 t1 in simp_all)
  moreover have "(?n - ?t) - ?t = ?n - 2 * ?t" by simp
  ultimately show ?thesis using c3 by (simp add: core_slice_def)
qed

lemma core_length_large:
  assumes "6 \<le> length prices"
  shows "length (take (nat (int (length prices) - 2 * trim_count (int (length prices))))
             (drop (nat (trim_count (int (length prices)))) (sort prices)))
         = nat (int (length prices) - 2 * trim_count (int (length prices)))"
proof -
  let ?n = "int (length prices)"
  let ?t = "trim_count ?n"
  have n6: "6 \<le> ?n" using assms by simp
  have c3: "3 \<le> ?n - 2 * ?t" by (rule core_size_ge3 [OF n6])
  have t1: "1 \<le> ?t" by (rule trim_count_pos)
  show ?thesis using c3 t1 by (simp add: min_def)
qed

lemma trimmed_mean_large:
  assumes "6 \<le> length prices"
  shows "trimmed_mean prices =
     Inr (Some (sum_list (core_slice (sort prices) (int (length prices)) (trim_count (int (length prices))))
        / of_nat (length (core_slice (sort prices) (int (length prices)) (trim_count (int (length prices)))))))"
proof -
  let ?n = "int (length prices)"
  let ?t = "trim_count ?n"
  have n6: "6 \<le> ?n" using assms by simp
  have c3: "3 \<le> ?n - 2 * ?t" by (rule core_size_ge3 [OF n6])
  have "length (core_slice (sort prices) ?n ?t) = nat (?n - 2 * ?t)"
    by (simp only: core_slice_large [OF assms] core_length_large [OF assms])
  then have ne: "core_slice (sort prices) ?n ?t \<noteq> []" using c3 by auto
  have p: "prices \<noteq> []" using assms by auto
  show ?thesis using ne p n6
    by (simp add: trimmed_mean_def Let_def core_estimate_def some_result_def)
qed

subsection \<open>The estimator\<close>

text \<open>
  Claim C3. For a price sequence of length \<open>n \<ge> 6\<close> the estimator takes
  \<open>trim = max 1 (floor (n * 0.15))\<close>, drops \<open>trim\<close> elements from each end of the sorted
  sequence and, when at least 3 elements remain, returns the arithmetic mean of what
  remains; for \<open>[10,10,10,10,10,10,10,100]\<close> the estimate is exactly 10.
\<close>

theorem trimmed_mean_core_mean:
  "(6 \<le> length prices \<longrightarrow>
      (let n = length prices;
           trim = nat (max 1 \<lfloor>(of_nat n :: rat) * (15 / 100)\<rfloor>);
           core = take (n - 2 * trim) (drop trim (sort prices))
       in 3 \<le> length core \<longrightarrow>
          trimmed_mean prices = Inr (Some (sum_list core / of_nat (length core)))))
   \<and> trimmed_mean [10, 10, 10, 10, 10, 10, 10, 100] = Inr (Some 10)"
proof (intro conjI impI)
  assume n6: "6 \<le> length prices"
  let ?n = "int (length prices)"
  let ?t = "trim_count ?n"
  have t1: "1 \<le> ?t" by (rule trim_count_pos)
  have tr: "nat (max 1 \<lfloor>(of_nat (length prices) :: rat) * (15 / 100)\<rfloor>) = nat ?t"
    by (simp add: trim_count_def)
  have sz: "length prices - 2 * nat ?t = nat (?n - 2 * ?t)"
    using t1 by (simp add: nat_diff_distrib' nat_mult_distrib)
  have "trimmed_mean prices =
     Inr (Some (sum_list (take (nat (?n - 2 * ?t)) (drop (nat ?t) (sort prices)))
        / of_nat (length (take (nat (?n - 2 * ?t)) (drop (nat ?t) (sort prices))))))"
    by (simp only: trimmed_mean_large [OF n6] core_slice_large [OF n6])
  then show "let n = length prices;
           trim = nat (max 1 \<lfloor>(of_nat n :: rat) * (15 / 100)\<rfloor>);
           core = take (n - 2 * trim) (drop trim (sort prices))
       in 3 \<le> length core \<longrightarrow>
          trimmed_mean prices = Inr (Some (sum_list core / of_nat (length core)))"
    unfolding Let_def tr sz by simp
next
  show "trimmed_mean [10, 10, 10, 10, 10, 10, 10, 100] = Inr (Some 10)"
    by code_simp
qed

theorem trimmed_mean_core_mean_witness:
  "6 \<le> length [1, 2, 3, 4, 10, 30 :: rat]
   \<and> 3 \<le> length (take (6 - 2 * 1) (drop 1 (sort [1, 2, 3, 4, 10, 30 :: rat])))
   \<and> nat (max 1 \<lfloor>(of_nat (length [1, 2, 3, 4, 10, 30 :: rat]) :: rat) * (15 / 100)\<rfloor>) = 1
   \<and> trimmed_mean [1, 2, 3, 4, 10, 30] = Inr (Some (19 / 4))"
proof -
  have l: "length [1, 2, 3, 4, 10, 30 :: rat] = 6" by simp
  have t: "nat (max 1 \<lfloor>(of_nat (length [1, 2, 3, 4, 10, 30 :: rat]) :: rat) * (15 / 100)\<rfloor>) = 1"
    by code_simp
  have s: "sort [1, 2, 3, 4, 10, 30 :: rat] = [1, 2, 3, 4, 10, 30]" by code_simp
  have "trimmed_mean [1, 2, 3, 4, 10, 30] = Inr (Some (19 / 4))"
    using trimmed_mean_core_mean [of "[1, 2, 3, 4, 10, 30]"]
    unfolding Let_def t unfolding l s by simp
  then show ?thesis using t s by simp
qed

text \<open>
  Claim C5. For a price sequence of length \<open>n \<ge> 6\<close> the inequality
  \<open>n - 2 * max 1 (floor (n * 0.15)) \<ge> 3\<close> holds: the core is always the slice, it is never
  empty, and the estimate is always the mean of the trimmed core. Neither the whole-sequence
  alternative of the core nor the final median expression is reached.
\<close>

theorem trimmed_fallback_unreachable:
  assumes "6 \<le> length prices"
  shows "3 \<le> int (length prices) - 2 * max 1 \<lfloor>(of_int (int (length prices)) :: rat) * (15 / 100)\<rfloor>
    \<and> core_slice (sort prices) (int (length prices)) (trim_count (int (length prices)))
        = py_slice (sort prices) (trim_count (int (length prices)))
            (int (length prices) - trim_count (int (length prices)))
    \<and> core_slice (sort prices) (int (length prices)) (trim_count (int (length prices))) \<noteq> []
    \<and> trimmed_mean prices =
        Inr (Some (sum_list (core_slice (sort prices) (int (length prices)) (trim_count (int (length prices))))
           / of_nat (length (core_slice (sort prices) (int (length prices)) (trim_count (int (length prices)))))))"
proof -
  let ?n = "int (length prices)"
  let ?t = "trim_count ?n"
  have n6: "6 \<le> ?n" using assms by simp
  have c3: "3 \<le> ?n - 2 * ?t" by (rule core_size_ge3 [OF n6])
  have a: "3 \<le> ?n - 2 * max 1 \<lfloor>(of_int ?n :: rat) * (15 / 100)\<rfloor>"
    using c3 by (simp only: trim_count_def)
  have b: "core_slice (sort prices) ?n ?t = py_slice (sort prices) ?t (?n - ?t)"
    using c3 by (simp add: core_slice_def)
  have "length (core_slice (sort prices) ?n ?t) = nat (?n - 2 * ?t)"
    by (simp only: core_slice_large [OF assms] core_length_large [OF assms])
  then have c: "core_slice (sort prices) ?n ?t \<noteq> []" using c3 by auto
  show ?thesis using a b c trimmed_mean_large [OF assms] by blast
qed

theorem trimmed_fallback_unreachable_witness:
  "6 \<le> length [1, 2, 3, 4, 10, 30 :: rat]
   \<and> core_slice (sort [1, 2, 3, 4, 10, 30]) 6 (trim_count 6) = [2, 3, 4, 10]
   \<and> trimmed_mean [1, 2, 3, 4, 10, 30] = Inr (Some (19 / 4))"
proof -
  have h: "6 \<le> length [1, 2, 3, 4, 10, 30 :: rat]" by simp
  have c: "core_slice (sort [1, 2, 3, 4, 10, 30]) 6 (trim_count 6) = [2, 3, 4, 10]" by code_simp
  have "trimmed_mean [1, 2, 3, 4, 10, 30] =
     Inr (Some (sum_list (core_slice (sort [1, 2, 3, 4, 10, 30]) 6 (trim_count 6))
        / of_nat (length (core_slice (sort [1, 2, 3, 4, 10, 30]) 6 (trim_count 6)))))"
    using trimmed_fallback_unreachable [OF h] by simp
  then have "trimmed_mean [1, 2, 3, 4, 10, 30] = Inr (Some (19 / 4))"
    unfolding c by simp
  then show ?thesis using h c by simp
qed

text \<open>
  Claim C6. The estimate of the empty sequence is absent. For a non-empty sequence of fewer
  than 6 prices it is the median of the sorted sequence: the middle element of an odd
  number of prices, the average of the two middle elements of an even number.
\<close>

theorem trimmed_mean_short_median:
  "trimmed_mean [] = Inr None
   \<and> (prices \<noteq> [] \<and> length prices < 6 \<longrightarrow>
        trimmed_mean prices =
          Inr (Some (if odd (length prices) then sort prices ! (length prices div 2)
                     else (sort prices ! (length prices div 2 - 1)
                           + sort prices ! (length prices div 2)) / 2))
        \<and> some_result (median (sort prices)) = trimmed_mean prices)"
proof (intro conjI impI)
  show "trimmed_mean [] = Inr None" by (simp add: trimmed_mean_def)
next
  assume "prices \<noteq> [] \<and> length prices < 6"
  then show "trimmed_mean prices =
          Inr (Some (if odd (length prices) then sort prices ! (length prices div 2)
                     else (sort prices ! (length prices div 2 - 1)
                           + sort prices ! (length prices div 2)) / 2))"
    by (simp add: trimmed_mean_small)
next
  assume "prices \<noteq> [] \<and> length prices < 6"
  then show "some_result (median (sort prices)) = trimmed_mean prices"
    by (simp add: trimmed_mean_def Let_def)
qed

theorem trimmed_mean_short_median_witness:
  "[3, 1, 2, 8 :: rat] \<noteq> [] \<and> length [3, 1, 2, 8 :: rat] < 6
   \<and> trimmed_mean [3, 1, 2, 8] = Inr (Some (5 / 2))
   \<and> [9, 1, 5 :: rat] \<noteq> [] \<and> length [9, 1, 5 :: rat] < 6
   \<and> trimmed_mean [9, 1, 5] = Inr (Some 5)"
proof -
  have s4: "sort [3, 1, 2, 8 :: rat] = [1, 2, 3, 8]" by code_simp
  have s3: "sort [9, 1, 5 :: rat] = [1, 5, 9]" by code_simp
  have a: "trimmed_mean [3, 1, 2, 8] = Inr (Some (5 / 2))"
    using trimmed_mean_short_median [of "[3, 1, 2, 8]"] unfolding s4 by simp
  have b: "trimmed_mean [9, 1, 5] = Inr (Some 5)"
    using trimmed_mean_short_median [of "[9, 1, 5]"] unfolding s3 by simp
  show ?thesis using a b by simp
qed

subsection \<open>Auxiliary facts about the filter\<close>


lemma lower_char_idem: "lower_char (lower_char c) = lower_char c"
proof (cases "65 \<le> (of_char c :: nat) \<and> (of_char c :: nat) \<le> 90")
  case True
  then have "(of_char (char_of (of_char c + 32 :: nat) :: char) :: nat) = of_char c + 32"
    by (simp add: of_char_of)
  with True show ?thesis by (simp add: lower_char_def Let_def)
next
  case False
  then have "lower_char c = c" by (auto simp add: lower_char_def Let_def)
  then show ?thesis by simp
qed

lemma lower_idem: "lower (lower s) = lower s"
  by (simp add: lower_def lower_char_idem)


lemma parse_exclude_terms_set:
  "set (parse_exclude_terms exclude_terms)
     = {lower (strip t) | t. t \<in> set (split_comma exclude_terms) \<and> strip t \<noteq> []}"
  by (auto simp add: parse_exclude_terms_def)

lemma parse_exclude_terms_lower:
  "tm \<in> set (parse_exclude_terms exclude_terms) \<Longrightarrow> lower tm = tm \<and> tm \<noteq> []"
  by (auto simp add: parse_exclude_terms_set lower_idem) (simp add: lower_def)

lemma completed_loop_append:
  "completed_loop currency disallowed (xs @ ys)
     = completed_loop currency disallowed xs @ completed_loop currency disallowed ys"
  by (induction xs) (simp_all split: option.splits)

lemma active_loop_append:
  "active_loop currency disallowed (xs @ ys)
     = active_loop currency disallowed xs @ active_loop currency disallowed ys"
  by (induction xs) (simp_all split: option.splits)

subsection \<open>The filter\<close>



text \<open>
  Claim C10. A listing whose currency is not exactly the requested one (or has none) is
  left out by both passes, whatever its price, title and place in the result: the output is
  that of the same result without the listing. No price is converted.
\<close>

theorem currency_mismatch_excluded:
  assumes "currencyId it \<noteq> Some currency"
  shows "completed_loop currency disallowed (xs @ it # ys)
           = completed_loop currency disallowed (xs @ ys)
       \<and> active_loop currency disallowed (xs @ it # ys)
           = active_loop currency disallowed (xs @ ys)"
  using assms by (simp add: completed_loop_append active_loop_append)

theorem currency_mismatch_excluded_witness:
  "currencyId (example_item ''Charizard holo'' ''USD'' 30) \<noteq> Some ''GBP''
   \<and> completed_loop ''GBP'' [''psa'']
         ([example_item ''Charizard holo'' ''GBP'' 100]
            @ example_item ''Charizard holo'' ''USD'' 30 # []) = [100]
   \<and> active_loop ''GBP'' [''psa'']
         ([example_item ''Charizard holo'' ''GBP'' 100]
            @ example_item ''Charizard holo'' ''USD'' 30 # [])
       = [\<lparr>listing_id = ''1'', listing_title = Some ''Charizard holo'', listing_price = 100,
           listing_url = ''https://www.ebay.co.uk/itm/1''\<rparr>]"
proof -
  have h: "currencyId (example_item ''Charizard holo'' ''USD'' 30) \<noteq> Some ''GBP''"
    by (simp add: example_item_def)
  have a: "completed_loop ''GBP'' [''psa''] ([example_item ''Charizard holo'' ''GBP'' 100] @ [])
      = [100]" by code_simp
  have b: "active_loop ''GBP'' [''psa''] ([example_item ''Charizard holo'' ''GBP'' 100] @ [])
      = [\<lparr>listing_id = ''1'', listing_title = Some ''Charizard holo'', listing_price = 100,
           listing_url = ''https://www.ebay.co.uk/itm/1''\<rparr>]" by code_simp
  show ?thesis
    using h currency_mismatch_excluded [OF h, of "[''psa'']"
        "[example_item ''Charizard holo'' ''GBP'' 100]" "[]"]
    unfolding a b by blast
qed

subsection \<open>Auxiliary facts about the classifier\<close>

lemma dashboard_classify:
  "dashboard EBAY_APP_ID http fm =
     (case EBAY_APP_ID of
        None \<Rightarrow> (Inl MissingAppId, [])
      | Some app_id \<Rightarrow>
          if app_id = [] then (Inl MissingAppId, [])
          else if form_discount_percent fm \<le> 0 \<or> form_discount_percent fm \<ge> 100
          then (Inl (ValueError ''Discount % must be between 1 and 99.''), [])
          else
            (case get_completed_prices http app_id (strip (form_keywords fm))
                    (strip (form_global_id fm)) (strip (form_category_id fm))
                    (strip (form_currency fm)) (form_sold_fetch fm)
                    (parse_exclude_terms (form_exclude_terms fm)) [] of
               (Inl e, sent) \<Rightarrow> (Inl e, sent)
             | (Inr sold_prices, sent) \<Rightarrow>
                 classify_sold ''Not enough sold data (got '' http app_id
                   (strip (form_keywords fm)) (strip (form_global_id fm))
                   (strip (form_category_id fm)) (strip (form_currency fm))
                   (form_min_sold_count fm) (form_discount_percent fm) (form_active_fetch fm)
                   (parse_exclude_terms (form_exclude_terms fm)) sold_prices sent))"
  unfolding dashboard_def classify_sold_def Let_def by (rule refl)

lemma api_search_classify:
  "api_search EBAY_APP_ID http fm =
     (case EBAY_APP_ID of
        None \<Rightarrow> (Inl MissingAppId, [])
      | Some app_id \<Rightarrow>
          if app_id = [] then (Inl MissingAppId, [])
          else
            (case get_completed_prices http app_id (form_keywords fm)
                    (form_global_id fm) (form_category_id fm)
                    (form_currency fm) (form_sold_fetch fm)
                    (parse_exclude_terms (form_exclude_terms fm)) [] of
               (Inl e, sent) \<Rightarrow> (Inl e, sent)
             | (Inr sold_prices, sent) \<Rightarrow>
                 classify_sold ''Not enough sold data ('' http app_id
                   (form_keywords fm) (form_global_id fm)
                   (form_category_id fm) (form_currency fm)
                   (form_min_sold_count fm) (form_discount_percent fm) (form_active_fetch fm)
                   (parse_exclude_terms (form_exclude_terms fm)) sold_prices sent))"
  unfolding api_search_def classify_sold_def Let_def by (rule refl)

lemma guarded_trimmed_mean:
  "(if ps \<noteq> [] then trimmed_mean ps else Inr None) = trimmed_mean ps"
  by (simp add: trimmed_mean_def)

lemma trimmed_mean_total: "\<exists>est. trimmed_mean ps = Inr est"
proof (cases "ps = []")
  case True
  then show ?thesis by (simp add: trimmed_mean_def)
next
  case False
  show ?thesis
  proof (cases "length ps < 6")
    case True
    with False show ?thesis by (simp add: trimmed_mean_small)
  next
    case False
    then have "6 \<le> length ps" by simp
    then show ?thesis by (simp add: trimmed_mean_large)
  qed
qed

lemma trimmed_mean_None_iff: "trimmed_mean ps = Inr None \<longleftrightarrow> ps = []"
proof (cases "ps = []")
  case True
  then show ?thesis by (simp add: trimmed_mean_def)
next
  case False
  show ?thesis
  proof (cases "length ps < 6")
    case True
    with False show ?thesis by (simp add: trimmed_mean_small)
  next
    case False
    then have "6 \<le> length ps" by simp
    then show ?thesis using \<open>ps \<noteq> []\<close> by (simp add: trimmed_mean_large)
  qed
qed

lemma completed_loop_pos: "p \<in> set (completed_loop currency disallowed items) \<Longrightarrow> 0 < p"
  by (induction items) (auto split: if_splits option.splits)

lemma get_completed_prices_Inr:
  assumes "get_completed_prices http app_id keywords global_id category_id currency sold_fetch
       disallowed sent = (Inr sold_prices, sent')"
  shows "sent' = sent @ [FindCompletedItems app_id keywords global_id category_id sold_fetch]
       \<and> (\<forall>p \<in> set sold_prices. 0 < p)"
  using assms
  by (auto simp add: get_completed_prices_def Let_def completed_loop_pos split: sum.splits)

lemma classify_sold_insufficient:
  assumes "trimmed_mean sold_prices = Inr estimate"
      and "estimate = None \<or> int (length sold_prices) < min_sold"
  shows "classify_sold note_start http app_id keywords global_id category_id currency min_sold
       discount_percent active_fetch disallowed sold_prices sent =
     (Inr \<lparr>res_note = Some (note_start @ str_nat (length sold_prices) @ '').''),
            res_sold_count = int (length sold_prices),
            res_avg_price = estimate,
            res_threshold = None,
            res_hits = []\<rparr>, sent)"
  using assms unfolding classify_sold_def guarded_trimmed_mean
  by (auto simp add: falsy_def)

lemma classify_sold_shape:
  assumes "classify_sold note_start http app_id keywords global_id category_id currency min_sold
       discount_percent active_fetch disallowed sold_prices sent = (Inr r, sent')"
  shows "(res_note r \<noteq> None \<and> res_threshold r = None \<and> res_hits r = [])
       \<or> (res_note r = None \<and> res_threshold r \<noteq> None \<and> res_avg_price r \<noteq> None
           \<and> min_sold \<le> res_sold_count r)"
proof -
  obtain est where est: "trimmed_mean sold_prices = Inr est"
    using trimmed_mean_total by blast
  show ?thesis
  proof (cases "falsy est \<or> int (length sold_prices) < min_sold")
    case True
    with assms est show ?thesis
      unfolding classify_sold_def guarded_trimmed_mean by auto
  next
    case False
    then obtain avg where avg: "est = Some avg" by (cases est) (auto simp add: falsy_def)
    obtain ra sa where act: "get_active_under http app_id keywords global_id category_id
        currency active_fetch (py_round2 (avg * (1 - discount_percent / 100))) disallowed sent
        = (ra, sa)" by (cases "get_active_under http app_id keywords global_id category_id
        currency active_fetch (py_round2 (avg * (1 - discount_percent / 100))) disallowed sent")
    show ?thesis
    proof (cases ra)
      case (Inl e)
      with assms est False avg act show ?thesis
        unfolding classify_sold_def guarded_trimmed_mean by (simp add: Let_def)
    next
      case (Inr hits)
      with assms est False avg act show ?thesis
        unfolding classify_sold_def guarded_trimmed_mean by (auto simp add: Let_def)
    qed
  qed
qed

lemma dashboard_result_shape:
  assumes "dashboard EBAY_APP_ID http fm = (Inr r, sent)"
  shows "(res_note r \<noteq> None \<and> res_threshold r = None \<and> res_hits r = [])
       \<or> (res_note r = None \<and> res_threshold r \<noteq> None \<and> res_avg_price r \<noteq> None
           \<and> form_min_sold_count fm \<le> res_sold_count r)"
  using assms unfolding dashboard_classify
  by (auto split: option.splits if_splits prod.splits sum.splits dest: classify_sold_shape)

lemma api_search_result_shape:
  assumes "api_search EBAY_APP_ID http fm = (Inr r, sent)"
  shows "(res_note r \<noteq> None \<and> res_threshold r = None \<and> res_hits r = [])
       \<or> (res_note r = None \<and> res_threshold r \<noteq> None \<and> res_avg_price r \<noteq> None
           \<and> form_min_sold_count fm \<le> res_sold_count r)"
  using assms unfolding api_search_classify
  by (auto split: option.splits if_splits prod.splits sum.splits dest: classify_sold_shape)

lemma dashboard_rejects_discount:
  assumes "form_discount_percent fm \<le> 0 \<or> 100 \<le> form_discount_percent fm"
  shows "snd (dashboard EBAY_APP_ID http fm) = []
       \<and> (\<exists>e. fst (dashboard EBAY_APP_ID http fm) = Inl e)"
  using assms unfolding dashboard_classify by (auto split: option.splits)

lemma get_completed_prices_sent:
  "snd (get_completed_prices http app_id keywords global_id category_id currency sold_fetch
          disallowed sent)
     = sent @ [FindCompletedItems app_id keywords global_id category_id sold_fetch]"
  by (simp add: get_completed_prices_def Let_def split: sum.splits)

lemma get_active_under_sent:
  "snd (get_active_under http app_id keywords global_id category_id currency active_fetch
          max_price disallowed sent)
     = sent @ [FindItemsAdvanced app_id keywords global_id category_id max_price currency
                 active_fetch]"
  by (simp add: get_active_under_def Let_def split: sum.splits)

lemma classify_sold_sent:
  "\<exists>rest. snd (classify_sold note_start http app_id keywords global_id category_id currency
          min_sold discount_percent active_fetch disallowed sold_prices sent) = sent @ rest"
proof -
  obtain est where est: "trimmed_mean sold_prices = Inr est"
    using trimmed_mean_total by blast
  show ?thesis
  proof (cases "falsy est \<or> int (length sold_prices) < min_sold")
    case True
    with est show ?thesis
      unfolding classify_sold_def guarded_trimmed_mean by auto
  next
    case False
    then obtain avg where avg: "est = Some avg" by (cases est) (auto simp add: falsy_def)
    have "snd (classify_sold note_start http app_id keywords global_id category_id currency
          min_sold discount_percent active_fetch disallowed sold_prices sent)
        = snd (get_active_under http app_id keywords global_id category_id currency
            active_fetch (py_round2 (avg * (1 - discount_percent / 100))) disallowed sent)"
      using est False avg unfolding classify_sold_def guarded_trimmed_mean
      by (simp add: Let_def split: prod.splits sum.splits)
    then show ?thesis unfolding get_active_under_sent by simp
  qed
qed

lemma api_search_first_request:
  assumes "EBAY_APP_ID = Some app_id" and "app_id \<noteq> []"
  shows "\<exists>rest. snd (api_search EBAY_APP_ID http fm)
           = FindCompletedItems app_id (form_keywords fm) (form_global_id fm)
               (form_category_id fm) (form_sold_fetch fm) # rest"
proof -
  let ?req = "FindCompletedItems app_id (form_keywords fm) (form_global_id fm)
               (form_category_id fm) (form_sold_fetch fm)"
  obtain ra sa where g: "get_completed_prices http app_id (form_keywords fm)
                    (form_global_id fm) (form_category_id fm)
                    (form_currency fm) (form_sold_fetch fm)
                    (parse_exclude_terms (form_exclude_terms fm)) [] = (ra, sa)"
    by (cases "get_completed_prices http app_id (form_keywords fm)
                    (form_global_id fm) (form_category_id fm)
                    (form_currency fm) (form_sold_fetch fm)
                    (parse_exclude_terms (form_exclude_terms fm)) []")
  have sa: "sa = [?req]"
    using get_completed_prices_sent [of http app_id "form_keywords fm" "form_global_id fm"
        "form_category_id fm" "form_currency fm" "form_sold_fetch fm"
        "parse_exclude_terms (form_exclude_terms fm)" "[]"] unfolding g by simp
  show ?thesis
  proof (cases ra)
    case (Inl e)
    with assms g sa show ?thesis unfolding api_search_classify by simp
  next
    case (Inr sold_prices)
    obtain rest where "snd (classify_sold ''Not enough sold data ('' http app_id
                   (form_keywords fm) (form_global_id fm)
                   (form_category_id fm) (form_currency fm)
                   (form_min_sold_count fm) (form_discount_percent fm) (form_active_fetch fm)
                   (parse_exclude_terms (form_exclude_terms fm)) sold_prices [?req])
         = [?req] @ rest"
      using classify_sold_sent by blast
    with Inr assms g sa show ?thesis unfolding api_search_classify by simp
  qed
qed

subsection \<open>The worked examples, evaluated\<close>

lemma example_dashboard_proceeds:
  "dashboard (Some ''app'') (example_market 12) (example_form 40) = 
  (Inr \<lparr>res_note = None, res_sold_count = 12, res_avg_price = Some 100,
         res_threshold = Some 60,
         res_hits = [\<lparr>listing_id = ''1'', listing_title = Some ''Charizard holo'',
               listing_price = 45, listing_url = ''https://www.ebay.co.uk/itm/1''\<rparr>]\<rparr>,
  [FindCompletedItems ''app'' ''vintage pokemon cards holo'' ''EBAY-GB'' ''183454'' 50,
   FindItemsAdvanced ''app'' ''vintage pokemon cards holo'' ''EBAY-GB'' ''183454'' 60 ''GBP'' 50])"
  by code_simp

lemma example_api_search_insufficient:
  "api_search (Some ''app'') (example_market 5) (example_form 40) = 
  (Inr \<lparr>res_note = Some ''Not enough sold data (5).'', res_sold_count = 5, res_avg_price = Some 100,
         res_threshold = None, res_hits = []\<rparr>,
  [FindCompletedItems ''app'' ''vintage pokemon cards holo'' ''EBAY-GB'' ''183454'' 50])"
  by code_simp

lemma example_sold_five:
  "get_completed_prices (example_market 5) ''app'' (strip (form_keywords (example_form 40)))
      (strip (form_global_id (example_form 40))) (strip (form_category_id (example_form 40)))
      (strip (form_currency (example_form 40))) (form_sold_fetch (example_form 40))
      (parse_exclude_terms (form_exclude_terms (example_form 40))) []
   = (Inr (replicate 5 100),
      [FindCompletedItems ''app'' ''vintage pokemon cards holo'' ''EBAY-GB'' ''183454'' 50])"
  by code_simp

lemma example_sold_five_api:
  "get_completed_prices (example_market 5) ''app'' (form_keywords (example_form 40))
      (form_global_id (example_form 40)) (form_category_id (example_form 40))
      (form_currency (example_form 40)) (form_sold_fetch (example_form 40))
      (parse_exclude_terms (form_exclude_terms (example_form 40))) []
   = (Inr (replicate 5 100),
      [FindCompletedItems ''app'' ''vintage pokemon cards holo'' ''EBAY-GB'' ''183454'' 50])"
  by code_simp

lemma example_estimate_five: "trimmed_mean (replicate 5 100) = Inr (Some 100)"
  by code_simp

lemma example_form_fields:
  "form_min_sold_count (example_form d) = 12" "form_discount_percent (example_form d) = d"
  "form_keywords (example_form d) = ''vintage pokemon cards holo''"
  "form_global_id (example_form d) = ''EBAY-GB''"
  "form_category_id (example_form d) = ''183454''"
  "form_currency (example_form d) = ''GBP''"
  "form_sold_fetch (example_form d) = 50"
  "form_active_fetch (example_form d) = 50"
  by (simp_all add: example_form_def)

lemma example_strips:
  "strip ''vintage pokemon cards holo'' = ''vintage pokemon cards holo''"
  "strip ''EBAY-GB'' = ''EBAY-GB''"
  "strip ''183454'' = ''183454''"
  "strip ''GBP'' = ''GBP''"
  by code_simp+

subsection \<open>The classifier\<close>

text \<open>
  Claim C1. Whenever a handler returns a result, its hits are non-empty only if the sold
  count reaches the minimum and the average price is present; and in every other case the
  threshold is absent, the hits are empty and the note is set.
\<close>

theorem hits_only_when_sufficient:
  assumes "dashboard EBAY_APP_ID http fm = (Inr r, sent)
         \<or> api_search EBAY_APP_ID http fm = (Inr r, sent)"
  shows "(res_hits r \<noteq> [] \<longrightarrow>
            form_min_sold_count fm \<le> res_sold_count r \<and> res_avg_price r \<noteq> None)
       \<and> (\<not> (form_min_sold_count fm \<le> res_sold_count r \<and> res_avg_price r \<noteq> None) \<longrightarrow>
            res_threshold r = None \<and> res_hits r = [] \<and> res_note r \<noteq> None)"
proof -
  from assms have "(res_note r \<noteq> None \<and> res_threshold r = None \<and> res_hits r = [])
       \<or> (res_note r = None \<and> res_threshold r \<noteq> None \<and> res_avg_price r \<noteq> None
           \<and> form_min_sold_count fm \<le> res_sold_count r)"
    using dashboard_result_shape api_search_result_shape by blast
  then show ?thesis by blast
qed

theorem hits_only_when_sufficient_witness:
  "dashboard (Some ''app'') (example_market 12) (example_form 40) =
     (Inr \<lparr>res_note = None, res_sold_count = 12, res_avg_price = Some 100,
            res_threshold = Some 60,
            res_hits = [\<lparr>listing_id = ''1'', listing_title = Some ''Charizard holo'',
               listing_price = 45, listing_url = ''https://www.ebay.co.uk/itm/1''\<rparr>]\<rparr>,
      [FindCompletedItems ''app'' ''vintage pokemon cards holo'' ''EBAY-GB'' ''183454'' 50,
       FindItemsAdvanced ''app'' ''vintage pokemon cards holo'' ''EBAY-GB'' ''183454'' 60
         ''GBP'' 50])
   \<and> form_min_sold_count (example_form 40) \<le> 12
   \<and> api_search (Some ''app'') (example_market 5) (example_form 40) =
     (Inr \<lparr>res_note = Some ''Not enough sold data (5).'', res_sold_count = 5,
            res_avg_price = Some 100, res_threshold = None, res_hits = []\<rparr>,
      [FindCompletedItems ''app'' ''vintage pokemon cards holo'' ''EBAY-GB'' ''183454'' 50])
   \<and> \<not> form_min_sold_count (example_form 40) \<le> 5"
proof -
  let ?rA = "\<lparr>res_note = None, res_sold_count = 12, res_avg_price = Some 100,
            res_threshold = Some 60,
            res_hits = [\<lparr>listing_id = ''1'', listing_title = Some ''Charizard holo'',
               listing_price = 45, listing_url = ''https://www.ebay.co.uk/itm/1''\<rparr>]\<rparr>"
  let ?rB = "\<lparr>res_note = Some ''Not enough sold data (5).'', res_sold_count = 5,
            res_avg_price = Some 100, res_threshold = None, res_hits = []\<rparr>"
  note a = example_dashboard_proceeds
  note b = example_api_search_insufficient
  from hits_only_when_sufficient [OF disjI1 [OF a]]
  have "form_min_sold_count (example_form 40) \<le> res_sold_count ?rA" by simp
  then have c: "form_min_sold_count (example_form 40) \<le> 12" by simp
  from hits_only_when_sufficient [OF disjI2 [OF b]]
  have "res_hits ?rB \<noteq> [] \<or> res_threshold ?rB = None" by simp
  have d: "\<not> form_min_sold_count (example_form 40) \<le> 5" by (simp add: example_form_def)
  show ?thesis using a b c d by blast
qed

text \<open>
  Claim C2. When the completed-sales request has been answered and the estimate is absent
  or there are fewer sold prices than the minimum, the handler returns a result (not an
  error) with the note set, the sold count equal to the number of sold prices, the average
  price equal to the estimate, no threshold and no hits; the only request sent is the
  completed-sales one, so the active listings are never fetched. For \<^verbatim>\<open>dashboard\<close> the
  discount has passed its check; \<^verbatim>\<open>api_search\<close> has no such check.
\<close>

theorem insufficient_data_outcome:
  "(EBAY_APP_ID = Some app_id \<and> app_id \<noteq> []
      \<and> 0 < form_discount_percent fm \<and> form_discount_percent fm < 100
      \<and> get_completed_prices http app_id (strip (form_keywords fm)) (strip (form_global_id fm))
            (strip (form_category_id fm)) (strip (form_currency fm)) (form_sold_fetch fm)
            (parse_exclude_terms (form_exclude_terms fm)) [] = (Inr sold_prices, sent)
      \<and> (trimmed_mean sold_prices = Inr None
           \<or> int (length sold_prices) < form_min_sold_count fm)
    \<longrightarrow> (\<exists>estimate. trimmed_mean sold_prices = Inr estimate
          \<and> dashboard EBAY_APP_ID http fm =
              (Inr \<lparr>res_note = Some (''Not enough sold data (got ''
                         @ str_nat (length sold_prices) @ '').''),
                     res_sold_count = int (length sold_prices),
                     res_avg_price = estimate,
                     res_threshold = None,
                     res_hits = []\<rparr>,
               [FindCompletedItems app_id (strip (form_keywords fm)) (strip (form_global_id fm))
                  (strip (form_category_id fm)) (form_sold_fetch fm)])))
   \<and> (EBAY_APP_ID = Some app_id \<and> app_id \<noteq> []
      \<and> get_completed_prices http app_id (form_keywords fm) (form_global_id fm)
            (form_category_id fm) (form_currency fm) (form_sold_fetch fm)
            (parse_exclude_terms (form_exclude_terms fm)) [] = (Inr sold_prices', sent')
      \<and> (trimmed_mean sold_prices' = Inr None
           \<or> int (length sold_prices') < form_min_sold_count fm)
    \<longrightarrow> (\<exists>estimate. trimmed_mean sold_prices' = Inr estimate
          \<and> api_search EBAY_APP_ID http fm =
              (Inr \<lparr>res_note = Some (''Not enough sold data (''
                         @ str_nat (length sold_prices') @ '').''),
                     res_sold_count = int (length sold_prices'),
                     res_avg_price = estimate,
                     res_threshold = None,
                     res_hits = []\<rparr>,
               [FindCompletedItems app_id (form_keywords fm) (form_global_id fm)
                  (form_category_id fm) (form_sold_fetch fm)])))"
proof (intro conjI impI; elim conjE)
  assume app: "EBAY_APP_ID = Some app_id" "app_id \<noteq> []"
    and disc: "0 < form_discount_percent fm" "form_discount_percent fm < 100"
    and sold: "get_completed_prices http app_id (strip (form_keywords fm))
            (strip (form_global_id fm)) (strip (form_category_id fm))
            (strip (form_currency fm)) (form_sold_fetch fm)
            (parse_exclude_terms (form_exclude_terms fm)) [] = (Inr sold_prices, sent)"
    and few: "trimmed_mean sold_prices = Inr None
           \<or> int (length sold_prices) < form_min_sold_count fm"
  obtain estimate where est: "trimmed_mean sold_prices = Inr estimate"
    using trimmed_mean_total by blast
  with few have c: "estimate = None \<or> int (length sold_prices) < form_min_sold_count fm"
    by auto
  have s: "sent = [FindCompletedItems app_id (strip (form_keywords fm))
      (strip (form_global_id fm)) (strip (form_category_id fm)) (form_sold_fetch fm)]"
    using get_completed_prices_Inr [OF sold] by simp
  have "dashboard EBAY_APP_ID http fm =
              (Inr \<lparr>res_note = Some (''Not enough sold data (got ''
                         @ str_nat (length sold_prices) @ '').''),
                     res_sold_count = int (length sold_prices),
                     res_avg_price = estimate,
                     res_threshold = None,
                     res_hits = []\<rparr>, sent)"
    unfolding dashboard_classify using app disc sold
    by (simp add: classify_sold_insufficient [OF est c])
  with est s show "\<exists>estimate. trimmed_mean sold_prices = Inr estimate
          \<and> dashboard EBAY_APP_ID http fm =
              (Inr \<lparr>res_note = Some (''Not enough sold data (got ''
                         @ str_nat (length sold_prices) @ '').''),
                     res_sold_count = int (length sold_prices),
                     res_avg_price = estimate,
                     res_threshold = None,
                     res_hits = []\<rparr>,
               [FindCompletedItems app_id (strip (form_keywords fm)) (strip (form_global_id fm))
                  (strip (form_category_id fm)) (form_sold_fetch fm)])" by blast
next
  assume app: "EBAY_APP_ID = Some app_id" "app_id \<noteq> []"
    and sold: "get_completed_prices http app_id (form_keywords fm) (form_global_id fm)
            (form_category_id fm) (form_currency fm) (form_sold_fetch fm)
            (parse_exclude_terms (form_exclude_terms fm)) [] = (Inr sold_prices', sent')"
    and few: "trimmed_mean sold_prices' = Inr None
           \<or> int (length sold_prices') < form_min_sold_count fm"
  obtain estimate where est: "trimmed_mean sold_prices' = Inr estimate"
    using trimmed_mean_total by blast
  with few have c: "estimate = None \<or> int (length sold_prices') < form_min_sold_count fm"
    by auto
  have s: "sent' = [FindCompletedItems app_id (form_keywords fm) (form_global_id fm)
                  (form_category_id fm) (form_sold_fetch fm)]"
    using get_completed_prices_Inr [OF sold] by simp
  have "api_search EBAY_APP_ID http fm =
              (Inr \<lparr>res_note = Some (''Not enough sold data (''
                         @ str_nat (length sold_prices') @ '').''),
                     res_sold_count = int (length sold_prices'),
                     res_avg_price = estimate,
                     res_threshold = None,
                     res_hits = []\<rparr>, sent')"
    unfolding api_search_classify using app sold
    by (simp add: classify_sold_insufficient [OF est c])
  with est s show "\<exists>estimate. trimmed_mean sold_prices' = Inr estimate
          \<and> api_search EBAY_APP_ID http fm =
              (Inr \<lparr>res_note = Some (''Not enough sold data (''
                         @ str_nat (length sold_prices') @ '').''),
                     res_sold_count = int (length sold_prices'),
                     res_avg_price = estimate,
                     res_threshold = None,
                     res_hits = []\<rparr>,
               [FindCompletedItems app_id (form_keywords fm) (form_global_id fm)
                  (form_category_id fm) (form_sold_fetch fm)])" by blast
qed

theorem insufficient_data_outcome_witness:
  "0 < form_discount_percent (example_form 40) \<and> form_discount_percent (example_form 40) < 100
   \<and> int (length (replicate 5 (100 :: rat))) < form_min_sold_count (example_form 40)
   \<and> dashboard (Some ''app'') (example_market 5) (example_form 40) =
       (Inr \<lparr>res_note = Some ''Not enough sold data (got 5).'', res_sold_count = 5,
              res_avg_price = Some 100, res_threshold = None, res_hits = []\<rparr>,
        [FindCompletedItems ''app'' ''vintage pokemon cards holo'' ''EBAY-GB'' ''183454'' 50])
   \<and> api_search (Some ''app'') (example_market 5) (example_form 40) =
       (Inr \<lparr>res_note = Some ''Not enough sold data (5).'', res_sold_count = 5,
              res_avg_price = Some 100, res_threshold = None, res_hits = []\<rparr>,
        [FindCompletedItems ''app'' ''vintage pokemon cards holo'' ''EBAY-GB'' ''183454'' 50])"
proof -
  have d: "0 < form_discount_percent (example_form 40)"
    "form_discount_percent (example_form 40) < 100"
    by (simp_all add: example_form_fields)
  have few: "int (length (replicate 5 (100 :: rat))) < form_min_sold_count (example_form 40)"
    by (simp add: example_form_fields)
  have n: "str_nat (length (replicate 5 (100 :: rat))) = ''5''" by code_simp
  note t = insufficient_data_outcome [of "Some ''app''" "''app''" "example_form 40"
      "example_market 5" "replicate 5 100" _ "replicate 5 100"]
  from t d few example_sold_five
  have "\<exists>estimate. trimmed_mean (replicate 5 100) = Inr estimate
          \<and> dashboard (Some ''app'') (example_market 5) (example_form 40) =
              (Inr \<lparr>res_note = Some (''Not enough sold data (got ''
                         @ str_nat (length (replicate 5 (100 :: rat))) @ '').''),
                     res_sold_count = int (length (replicate 5 (100 :: rat))),
                     res_avg_price = estimate,
                     res_threshold = None,
                     res_hits = []\<rparr>,
               [FindCompletedItems ''app'' (strip (form_keywords (example_form 40)))
                  (strip (form_global_id (example_form 40)))
                  (strip (form_category_id (example_form 40)))
                  (form_sold_fetch (example_form 40))])"
    by blast
  then have a: "dashboard (Some ''app'') (example_market 5) (example_form 40) =
       (Inr \<lparr>res_note = Some ''Not enough sold data (got 5).'', res_sold_count = 5,
              res_avg_price = Some 100, res_threshold = None, res_hits = []\<rparr>,
        [FindCompletedItems ''app'' ''vintage pokemon cards holo'' ''EBAY-GB'' ''183454'' 50])"
    unfolding example_estimate_five n example_form_fields example_strips by auto
  from t few example_sold_five_api
  have "\<exists>estimate. trimmed_mean (replicate 5 100) = Inr estimate
          \<and> api_search (Some ''app'') (example_market 5) (example_form 40) =
              (Inr \<lparr>res_note = Some (''Not enough sold data (''
                         @ str_nat (length (replicate 5 (100 :: rat))) @ '').''),
                     res_sold_count = int (length (replicate 5 (100 :: rat))),
                     res_avg_price = estimate,
                     res_threshold = None,
                     res_hits = []\<rparr>,
               [FindCompletedItems ''app'' (form_keywords (example_form 40))
                  (form_global_id (example_form 40))
                  (form_category_id (example_form 40))
                  (form_sold_fetch (example_form 40))])"
    by blast
  then have b: "api_search (Some ''app'') (example_market 5) (example_form 40) =
       (Inr \<lparr>res_note = Some ''Not enough sold data (5).'', res_sold_count = 5,
              res_avg_price = Some 100, res_threshold = None, res_hits = []\<rparr>,
        [FindCompletedItems ''app'' ''vintage pokemon cards holo'' ''EBAY-GB'' ''183454'' 50])"
    unfolding example_estimate_five n example_form_fields example_strips by auto
  show ?thesis using d few a b by blast
qed

text \<open>
  Claim C8 says that a discount outside the open interval from 0 to 100 is rejected before
  any request is sent. \<^verbatim>\<open>dashboard\<close> does so. \<^verbatim>\<open>api_search\<close> does not: with a discount
  of 0 it sends both requests and answers with a threshold equal to the average price, and
  with a discount of 100 it asks for active listings priced at most 0.
\<close>

theorem api_search_skips_discount_check:
  "dashboard (Some ''app'') (example_market 12) (example_form 0) =
     (Inl (ValueError ''Discount % must be between 1 and 99.''), [])
   \<and> api_search (Some ''app'') (example_market 12) (example_form 0) =
     (Inr \<lparr>res_note = None, res_sold_count = 12, res_avg_price = Some 100,
            res_threshold = Some 100,
            res_hits = [\<lparr>listing_id = ''1'', listing_title = Some ''Charizard holo'',
                         listing_price = 45,
                         listing_url = ''https://www.ebay.co.uk/itm/1''\<rparr>]\<rparr>,
      [FindCompletedItems ''app'' ''vintage pokemon cards holo'' ''EBAY-GB'' ''183454'' 50,
       FindItemsAdvanced ''app'' ''vintage pokemon cards holo'' ''EBAY-GB'' ''183454'' 100
         ''GBP'' 50])
   \<and> api_search (Some ''app'') (example_market 12) (example_form 100) =
     (Inr \<lparr>res_note = None, res_sold_count = 12, res_avg_price = Some 100,
            res_threshold = Some 0, res_hits = []\<rparr>,
      [FindCompletedItems ''app'' ''vintage pokemon cards holo'' ''EBAY-GB'' ''183454'' 50,
       FindItemsAdvanced ''app'' ''vintage pokemon cards holo'' ''EBAY-GB'' ''183454'' 0
         ''GBP'' 50])"
proof (intro conjI)
  show "dashboard (Some ''app'') (example_market 12) (example_form 0) =
     (Inl (ValueError ''Discount % must be between 1 and 99.''), [])"
    by code_simp
next
  show "api_search (Some ''app'') (example_market 12) (example_form 0) =
     (Inr \<lparr>res_note = None, res_sold_count = 12, res_avg_price = Some 100,
            res_threshold = Some 100,
            res_hits = [\<lparr>listing_id = ''1'', listing_title = Some ''Charizard holo'',
                         listing_price = 45,
                         listing_url = ''https://www.ebay.co.uk/itm/1''\<rparr>]\<rparr>,
      [FindCompletedItems ''app'' ''vintage pokemon cards holo'' ''EBAY-GB'' ''183454'' 50,
       FindItemsAdvanced ''app'' ''vintage pokemon cards holo'' ''EBAY-GB'' ''183454'' 100
         ''GBP'' 50])"
    by code_simp
next
  show "api_search (Some ''app'') (example_market 12) (example_form 100) =
     (Inr \<lparr>res_note = None, res_sold_count = 12, res_avg_price = Some 100,
            res_threshold = Some 0, res_hits = []\<rparr>,
      [FindCompletedItems ''app'' ''vintage pokemon cards holo'' ''EBAY-GB'' ''183454'' 50,
       FindItemsAdvanced ''app'' ''vintage pokemon cards holo'' ''EBAY-GB'' ''183454'' 0
         ''GBP'' 50])"
    by code_simp
qed

end
